theory Spec2Isabelle
  imports Main "HOL-Library.Word"
begin

unbundle bit_operations_syntax

section \<open>Machine types and byte-addressed memory\<close>

text \<open>
  The file \<^verbatim>\<open>src/F200/HardwareIO.cpp\<close> is modelled for an LP64 little-endian host:
  \<^verbatim>\<open>uint8_t\<close> is an 8-bit word, \<^verbatim>\<open>int\<close> a 32-bit word read with \<open>sint\<close>,
  \<^verbatim>\<open>size_t\<close> a 64-bit word read with \<open>unat\<close>. An object in memory is the list of its
  bytes; a pointer into an object is the list of bytes from the pointer onwards
  (\<open>drop k mem\<close> for \<^verbatim>\<open>mem + k\<close>). An access outside the object is undefined behaviour in
  C++; the model makes it the value \<open>Inl OutOfBounds\<close>.
\<close>

type_synonym byte = "8 word"
type_synonym uint16 = "16 word"
type_synonym uint32 = "32 word"
type_synonym cint = "32 word"
type_synonym size_t = "64 word"

datatype fault = OutOfBounds

definition thenF :: "fault + 'a \<Rightarrow> ('a \<Rightarrow> fault + 'b) \<Rightarrow> fault + 'b" where
  "thenF m f = (case m of Inl e \<Rightarrow> Inl e | Inr x \<Rightarrow> f x)"

text \<open>\<^verbatim>\<open>memcpy(dst + off, bs, length bs)\<close>: the write half.\<close>

definition store_bytes :: "byte list \<Rightarrow> nat \<Rightarrow> byte list \<Rightarrow> fault + byte list" where
  "store_bytes mem off bs =
     (if off + length bs \<le> length mem
      then Inr (take off mem @ bs @ drop (off + length bs) mem)
      else Inl OutOfBounds)"

text \<open>\<^verbatim>\<open>memcpy(_, src + off, n)\<close>: the read half.\<close>

definition load_bytes :: "byte list \<Rightarrow> nat \<Rightarrow> nat \<Rightarrow> fault + byte list" where
  "load_bytes src off n =
     (if off + n \<le> length src then Inr (take n (drop off src)) else Inl OutOfBounds)"

text \<open>Little-endian images of \<^verbatim>\<open>uint16_t\<close> and \<^verbatim>\<open>uint32_t\<close> values.\<close>

definition le16 :: "uint16 \<Rightarrow> byte list" where
  "le16 w = [ucast w, ucast (drop_bit 8 w)]"

definition le32 :: "uint32 \<Rightarrow> byte list" where
  "le32 w = [ucast w, ucast (drop_bit 8 w), ucast (drop_bit 16 w), ucast (drop_bit 24 w)]"

fun load_le :: "byte list \<Rightarrow> nat" where
  "load_le [] = 0"
| "load_le (b # bs) = unat b + 256 * load_le bs"

definition load_le16 :: "byte list \<Rightarrow> uint16" where
  "load_le16 bs = of_nat (load_le (take 2 bs))"

definition load_le32 :: "byte list \<Rightarrow> uint32" where
  "load_le32 bs = of_nat (load_le (take 4 bs))"

section \<open>Constants of the monitor protocol\<close>

definition IVCAM_MONITOR_MAGIC_NUMBER :: uint16 where
  "IVCAM_MONITOR_MAGIC_NUMBER = 0xcdab"

definition IVCAM_MIN_SUPPORTED_VERSION :: int where
  "IVCAM_MIN_SUPPORTED_VERSION = 13"

definition IVCAM_MONITOR_MAX_BUFFER_SIZE :: nat where
  "IVCAM_MONITOR_MAX_BUFFER_SIZE = 1024"

definition IVCAM_MONITOR_HEADER_SIZE :: nat where
  "IVCAM_MONITOR_HEADER_SIZE = 4 * 6"

definition SIZE_OF_CALIB_PARAM_BYTES :: nat where
  "SIZE_OF_CALIB_PARAM_BYTES = 512"

definition SIZE_OF_CALIB_HEADER_BYTES :: nat where
  "SIZE_OF_CALIB_HEADER_BYTES = 4"

definition GetCalibrationTable :: uint32 where
  "GetCalibrationTable = 0x3D"

section \<open>Version extraction\<close>

text \<open>
  \<^verbatim>\<open>bcdtoint\<close>: the loop \<^verbatim>\<open>for (i = 0; i < bufsize; i++) r = r * 10 + *buf++\<close>, with the
  number of remaining iterations as the recursion argument. The accumulator is a
  mathematical integer: with the two bytes the program passes it stays below 2806.
\<close>

fun bcdtoint_loop :: "byte list \<Rightarrow> nat \<Rightarrow> int \<Rightarrow> fault + int" where
  "bcdtoint_loop buf 0 r = Inr r"
| "bcdtoint_loop [] (Suc n) r = Inl OutOfBounds"
| "bcdtoint_loop (b # buf) (Suc n) r = bcdtoint_loop buf n (r * 10 + uint b)"

definition bcdtoint :: "byte list \<Rightarrow> int \<Rightarrow> fault + int" where
  "bcdtoint buf bufsize = bcdtoint_loop buf (nat bufsize) 0"

definition getVersionOfCalibration :: "byte list \<Rightarrow> byte list \<Rightarrow> fault + int" where
  "getVersionOfCalibration validation version =
     (let valid = [0x14, 0x0A] in
      thenF (load_bytes validation 0 2) (\<lambda>tag.
        if valid \<noteq> tag then Inr 0 else bcdtoint version 2))"

section \<open>Command Framer\<close>

text \<open>
  \<^verbatim>\<open>PrepareUSBCommand(request, requestSize, op, p1, p2, p3, p4, data, dataLength)\<close>.
  \<open>request\<close> is the caller's buffer (its real extent is the length of the list, the
  capacity the caller announces is \<open>requestSize\<close>); \<open>data\<close> is the payload object, \<open>[]\<close>
  for the null pointer. The result holds the buffer, \<^verbatim>\<open>requestSize\<close> and the returned
  \<^verbatim>\<open>int\<close>. The local \<^verbatim>\<open>int index\<close> is 24 after the six header stores; adding the
  \<^verbatim>\<open>size_t dataLength\<close> converts it to \<^verbatim>\<open>size_t\<close> and back to \<^verbatim>\<open>int\<close>.
\<close>

record framed =
  frame_request :: "byte list"
  frame_requestSize :: size_t
  frame_return :: cint

definition PrepareUSBCommand ::
  "byte list \<Rightarrow> size_t \<Rightarrow> uint32 \<Rightarrow> uint32 \<Rightarrow> uint32 \<Rightarrow> uint32 \<Rightarrow> uint32 \<Rightarrow> byte list \<Rightarrow> size_t
     \<Rightarrow> fault + framed" where
  "PrepareUSBCommand request requestSize op p1 p2 p3 p4 data dataLength =
     (if requestSize < of_nat IVCAM_MONITOR_HEADER_SIZE
      then Inr \<lparr>frame_request = request, frame_requestSize = requestSize, frame_return = 0\<rparr>
      else
        thenF (store_bytes request 2 (le16 IVCAM_MONITOR_MAGIC_NUMBER)) (\<lambda>r1.
        thenF (store_bytes r1 4 (le32 op)) (\<lambda>r2.
        thenF (store_bytes r2 8 (le32 p1)) (\<lambda>r3.
        thenF (store_bytes r3 12 (le32 p2)) (\<lambda>r4.
        thenF (store_bytes r4 16 (le32 p3)) (\<lambda>r5.
        thenF (store_bytes r5 20 (le32 p4)) (\<lambda>r6.
        thenF (if dataLength \<noteq> 0
               then thenF (load_bytes data 0 (unat dataLength)) (\<lambda>payload.
                    thenF (store_bytes r6 24 payload) (\<lambda>r7.
                      Inr (r7, (ucast ((scast (24 :: cint) :: size_t) + dataLength) :: cint))))
               else Inr (r6, 24)) (\<lambda>(r7, index).
        thenF (store_bytes r7 0 (le16 (ucast ((scast index :: size_t) - 4)))) (\<lambda>r8.
          Inr \<lparr>frame_request = r8, frame_requestSize = scast index,
               frame_return = index\<rparr>)))))))))"

section \<open>Transport Executor\<close>

text \<open>
  What the outside world does during one call is a parameter: whether
  \<^verbatim>\<open>usbMutex.try_lock_for\<close> obtains the lock, the return code of the OUT transfer, and
  the return code, transferred length (\<^verbatim>\<open>outXfer\<close>) and scratch-buffer contents
  (\<^verbatim>\<open>buf[1024]\<close>) left by the IN transfer. The calls made on the mutex and on the
  endpoints are recorded in order.
\<close>

record usb_device =
  dev_lock_acquired :: bool
  dev_out_ret :: cint
  dev_in_ret :: cint
  dev_in_xfer :: cint
  dev_in_buf :: "byte list"

datatype usb_event =
    Lock_acquired
  | Lock_timed_out
  | Bulk_out "byte list" cint
  | Bulk_in
  | Unlock

datatype 'a outcome = Returned 'a | Thrown string

record exec_state =
  ex_result :: "cint outcome"
  ex_op :: uint32
  ex_in :: "byte list option"
  ex_inSize :: size_t
  ex_events :: "usb_event list"

definition ExecuteUSBCommand ::
  "usb_device \<Rightarrow> byte list \<Rightarrow> size_t \<Rightarrow> uint32 \<Rightarrow> byte list option \<Rightarrow> size_t
     \<Rightarrow> fault + exec_state" where
  "ExecuteUSBCommand dev out outSize op inbuf inSize =
     (if dev_lock_acquired dev then
        (let ret = dev_out_ret dev;
             ev = [Lock_acquired, Bulk_out out (ucast outSize)]
         in if ret <s 0 then
              Inr \<lparr>ex_result = Returned ret, ex_op = op, ex_in = inbuf, ex_inSize = inSize,
                   ex_events = ev\<rparr>
            else if inbuf \<noteq> None \<and> inSize \<noteq> 0 then
              (let buf = dev_in_buf dev;
                   ret = dev_in_ret dev;
                   outXfer = dev_in_xfer dev;
                   ev = ev @ [Bulk_in]
               in if outXfer <s 4 then
                    Inr \<lparr>ex_result = Returned (- 1), ex_op = op, ex_in = inbuf,
                         ex_inSize = inSize, ex_events = ev @ [Unlock]\<rparr>
                  else
                    thenF (load_bytes buf 0 4) (\<lambda>status.
                      (let op = load_le32 status
                       in if (ucast inSize :: cint) <s outXfer then
                            Inr \<lparr>ex_result = Returned (- 1), ex_op = op, ex_in = inbuf,
                                 ex_inSize = inSize, ex_events = ev @ [Unlock]\<rparr>
                          else
                            (let inSize = (scast outXfer :: size_t)
                             in thenF (load_bytes buf 0 (unat inSize)) (\<lambda>response.
                                thenF (store_bytes (case inbuf of Some m \<Rightarrow> m | None \<Rightarrow> []) 0 response)
                                  (\<lambda>m. Inr \<lparr>ex_result = Returned ret, ex_op = op, ex_in = Some m,
                                             ex_inSize = inSize, ex_events = ev @ [Unlock]\<rparr>))))))
            else
              Inr \<lparr>ex_result = Returned ret, ex_op = op, ex_in = inbuf, ex_inSize = inSize,
                   ex_events = ev @ [Unlock]\<rparr>)
      else
        Inr \<lparr>ex_result = Thrown ''usbMutex timed out'', ex_op = op, ex_in = inbuf,
             ex_inSize = inSize, ex_events = [Lock_timed_out]\<rparr>)"

section \<open>Calibration Fetcher\<close>

text \<open>
  \<^verbatim>\<open>GetCalibrationRawData(data, bytesReturned)\<close>. The locals \<^verbatim>\<open>request[24]\<close> and
  \<^verbatim>\<open>responseOp\<close> are not initialised by the source; their contents at entry are the
  parameters \<open>request0\<close> and \<open>responseOp0\<close>. The condition is evaluated left to right
  with the short circuit of \<^verbatim>\<open>&&\<close>.
\<close>

record fetch_state =
  fetch_result :: "unit outcome"
  fetch_data :: "byte list option"
  fetch_bytesReturned :: size_t
  fetch_events :: "usb_event list"

definition GetCalibrationRawData ::
  "usb_device \<Rightarrow> byte list \<Rightarrow> uint32 \<Rightarrow> byte list option \<Rightarrow> size_t \<Rightarrow> fault + fetch_state" where
  "GetCalibrationRawData dev request0 responseOp0 data bytesReturned =
     thenF (PrepareUSBCommand request0 (of_nat IVCAM_MONITOR_HEADER_SIZE) GetCalibrationTable
              0 0 0 0 [] 0) (\<lambda>fr.
       if \<not> (0 <s frame_return fr) then
         Inr \<lparr>fetch_result = Thrown ''usb transfer to retrieve calibration data failed'',
              fetch_data = data, fetch_bytesReturned = bytesReturned, fetch_events = []\<rparr>
       else
         thenF (ExecuteUSBCommand dev (frame_request fr) (frame_requestSize fr) responseOp0
                  data bytesReturned) (\<lambda>ex.
           case ex_result ex of
             Thrown msg \<Rightarrow>
               Inr \<lparr>fetch_result = Thrown msg, fetch_data = ex_in ex,
                    fetch_bytesReturned = ex_inSize ex, fetch_events = ex_events ex\<rparr>
           | Returned r \<Rightarrow>
               if \<not> (r \<noteq> - 1) then
                 Inr \<lparr>fetch_result = Thrown ''usb transfer to retrieve calibration data failed'',
                      fetch_data = ex_in ex, fetch_bytesReturned = ex_inSize ex,
                      fetch_events = ex_events ex\<rparr>
               else
                 Inr \<lparr>fetch_result = Returned (), fetch_data = ex_in ex,
                      fetch_bytesReturned = ex_inSize ex, fetch_events = ex_events ex\<rparr>))"

section \<open>Calibration Decoder\<close>

text \<open>
  The types \<^verbatim>\<open>CameraCalibrationParameters\<close>, \<^verbatim>\<open>CameraCalibrationParametersVersion\<close>
  and \<^verbatim>\<open>IVCAMTesterData\<close> are declared in \<^verbatim>\<open>F200Types.h\<close>, which is not among the
  sources; their sizes and the offset of the member \<^verbatim>\<open>CalibrationParameters\<close> are
  parameters. Floats are never computed with here, only copied, so they stay bytes.
\<close>

record layout =
  sizeof_CameraCalibrationParameters :: nat
  sizeof_CameraCalibrationParametersVersion :: nat
  offsetof_CalibrationParameters :: nat
  sizeof_IVCAMTesterData :: nat

text \<open>
  The calls on the calibration object of \<^verbatim>\<open>Projection\<close>, with what they are handed:
  the pointer \<^verbatim>\<open>params\<close> (the bytes from it onwards) and the count, the member
  \<^verbatim>\<open>CalibrationData.CalibrationParameters\<close>, and the \<^verbatim>\<open>TesterData\<close> object whose
  members \<^verbatim>\<open>TemperatureData\<close> and \<^verbatim>\<open>ThermalLoopParams\<close> are passed.
\<close>

datatype collaborator_call =
    buildParameters_floats "byte list" int
  | buildParameters_struct "byte list"
  | InitializeThermalData "byte list"

record calib_state =
  cs_calprms :: "byte list"
  cs_TesterData :: "byte list"
  cs_calls :: "collaborator_call list"

text \<open>
  \<^verbatim>\<open>ProjectionCalibrate(rawCalibData, len, calprms)\<close>. \<open>TesterData0\<close> is the content of
  the uninitialised local \<^verbatim>\<open>TesterData\<close> at entry. In the comparison
  \<^verbatim>\<open>sizeof(...) > len\<close> and in \<^verbatim>\<open>size - sizeof(int)\<close> the \<^verbatim>\<open>int\<close> is converted to
  \<^verbatim>\<open>size_t\<close>.
\<close>

definition ProjectionCalibrate ::
  "layout \<Rightarrow> byte list \<Rightarrow> byte list \<Rightarrow> cint \<Rightarrow> byte list \<Rightarrow> fault + calib_state" where
  "ProjectionCalibrate L TesterData0 rawCalibData len calprms =
     (let bufParams = drop 4 rawCalibData;
          CalibrationData = replicate (sizeof_CameraCalibrationParametersVersion L) (0 :: byte)
      in thenF (getVersionOfCalibration bufParams (drop 2 bufParams)) (\<lambda>ver.
         if ver = IVCAM_MIN_SUPPORTED_VERSION then
           (let params = bufParams;
                calls = [buildParameters_floats params 100]
            in thenF (load_bytes params 4 (sizeof_CameraCalibrationParameters L)) (\<lambda>src.
               thenF (store_bytes calprms 0 src) (\<lambda>calprms.
               thenF (load_bytes bufParams 0 SIZE_OF_CALIB_HEADER_BYTES) (\<lambda>hdr.
               thenF (store_bytes TesterData0 0 hdr) (\<lambda>TesterData.
               thenF (store_bytes TesterData SIZE_OF_CALIB_HEADER_BYTES
                        (replicate (unat ((of_nat (sizeof_IVCAMTesterData L) :: size_t)
                                          - of_nat SIZE_OF_CALIB_HEADER_BYTES)) 0)) (\<lambda>TesterData.
                 Inr \<lparr>cs_calprms = calprms, cs_TesterData = TesterData, cs_calls = calls\<rparr>))))))
         else if IVCAM_MIN_SUPPORTED_VERSION < ver then
           (let rawCalibData = drop 4 rawCalibData;
                size = (if (scast len :: size_t) < of_nat (sizeof_CameraCalibrationParametersVersion L)
                        then len
                        else (of_nat (sizeof_CameraCalibrationParametersVersion L) :: cint))
            in thenF (load_bytes rawCalibData 0 (unat ((scast size :: size_t) - 4))) (\<lambda>src.
               thenF (store_bytes CalibrationData 4 src) (\<lambda>CalibrationData.
               thenF (load_bytes CalibrationData (offsetof_CalibrationParameters L)
                        (sizeof_CameraCalibrationParameters L)) (\<lambda>member.
               thenF (store_bytes calprms 0 member) (\<lambda>calprms.
               (let calls = [buildParameters_struct member]
                in thenF (load_bytes rawCalibData 0 SIZE_OF_CALIB_HEADER_BYTES) (\<lambda>hdr.
                   thenF (store_bytes TesterData0 0 hdr) (\<lambda>TesterData.
                   (let EndOfCalibratioData = SIZE_OF_CALIB_PARAM_BYTES + SIZE_OF_CALIB_HEADER_BYTES
                    in thenF (load_bytes rawCalibData EndOfCalibratioData
                                (unat ((of_nat (sizeof_IVCAMTesterData L) :: size_t)
                                       - of_nat SIZE_OF_CALIB_HEADER_BYTES))) (\<lambda>tester.
                       thenF (store_bytes TesterData SIZE_OF_CALIB_HEADER_BYTES tester) (\<lambda>TesterData.
                         Inr \<lparr>cs_calprms = calprms, cs_TesterData = TesterData,
                              cs_calls = calls @ [InitializeThermalData TesterData]\<rparr>)))))))))))
         else
           Inr \<lparr>cs_calprms = calprms, cs_TesterData = TesterData0, cs_calls = []\<rparr>))"

section \<open>Concrete inputs\<close>

text \<open>A small layout on which the decoder can be run by hand.\<close>

definition example_layout :: layout where
  "example_layout = \<lparr>sizeof_CameraCalibrationParameters = 8,
     sizeof_CameraCalibrationParametersVersion = 16,
     offsetof_CalibrationParameters = 8, sizeof_IVCAMTesterData = 8\<rparr>"

text \<open>
  Devices for single exchanges: one answers with the status word alone, one with eight
  bytes, one fails the OUT transfer with \<^verbatim>\<open>LIBUSB_ERROR_TIMEOUT\<close> (-7).
\<close>

definition status_only_device :: usb_device where
  "status_only_device = \<lparr>dev_lock_acquired = True, dev_out_ret = 0, dev_in_ret = 0,
     dev_in_xfer = 4, dev_in_buf = [1, 2, 3, 4] @ replicate 1020 0\<rparr>"

definition eight_byte_device :: usb_device where
  "eight_byte_device = \<lparr>dev_lock_acquired = True, dev_out_ret = 0, dev_in_ret = 0,
     dev_in_xfer = 8, dev_in_buf = [1, 2, 3, 4, 5, 6, 7, 8] @ replicate 1016 0\<rparr>"

definition out_failure_device :: usb_device where
  "out_failure_device = \<lparr>dev_lock_acquired = True, dev_out_ret = - 7, dev_in_ret = 0,
     dev_in_xfer = 8, dev_in_buf = [1, 2, 3, 4, 5, 6, 7, 8] @ replicate 1016 0\<rparr>"

text \<open>
  Two raw transfers: 4 prefix bytes, tag, version (BCD 14 and BCD 13), then data. The
  first is long enough to reach the tester data at offset \<open>4 + 512 + 4\<close>.
\<close>

definition versioned_blob :: "byte list" where
  "versioned_blob = [1, 2, 3, 4, 0x14, 0x0A, 1, 4, 20, 21, 22, 23, 24, 25, 26, 27]
                    @ replicate 504 5 @ [50, 51, 52, 53]"

definition legacy_blob :: "byte list" where
  "legacy_blob = [1, 2, 3, 4, 0x14, 0x0A, 1, 3, 20, 21, 22, 23, 24, 25, 26, 27]"

section \<open>The versioned copy as the specification words it\<close>

text \<open>
  This definition does not come from the source. It follows the sentence of the
  specification: \<open>min(sizeof(versioned-struct), received length)\<close> bytes of the blob after
  the prefix are copied to just past the leading integer field of the zeroed struct
  (cut to the size of the struct). It is compared with what \<open>ProjectionCalibrate\<close> does.
\<close>

definition CalibrationData_as_claimed :: "layout \<Rightarrow> byte list \<Rightarrow> cint \<Rightarrow> byte list" where
  "CalibrationData_as_claimed L rawCalibData len =
     (let size = min (sizeof_CameraCalibrationParametersVersion L) (nat (sint len))
      in take (sizeof_CameraCalibrationParametersVersion L)
           (replicate 4 0 @ take size (drop 4 rawCalibData)
              @ replicate (sizeof_CameraCalibrationParametersVersion L) 0))"

section \<open>Basic facts about the memory operations\<close>

lemma thenF_Inr: "thenF (Inr x) f = f x"
  by (simp add: thenF_def)

lemma thenF_Inl: "thenF (Inl e) f = Inl e"
  by (simp add: thenF_def)

lemma load_bytes_ok: "off + n \<le> length src \<Longrightarrow> load_bytes src off n = Inr (take n (drop off src))"
  by (simp add: load_bytes_def)

lemma store_bytes_ok:
  "off + length bs \<le> length mem \<Longrightarrow>
     store_bytes mem off bs = Inr (take off mem @ bs @ drop (off + length bs) mem)"
  by (simp add: store_bytes_def)

lemma bcdtoint_two: "bcdtoint (b0 # b1 # rest) 2 = Inr (uint b0 * 10 + uint b1)"
  by (simp add: bcdtoint_def numeral_2_eq_2)

lemma getVersion_invalid:
  assumes "2 \<le> length validation" and "take 2 validation \<noteq> [0x14, 0x0A]"
  shows "getVersionOfCalibration validation version = Inr 0"
  using assms by (auto simp add: getVersionOfCalibration_def load_bytes_ok thenF_Inr)

lemma getVersion_valid:
  assumes "take 2 validation = [0x14, 0x0A]"
  shows "getVersionOfCalibration validation version = bcdtoint version 2"
proof -
  have "2 \<le> length validation"
    using assms by (metis length_take min.cobounded1 length_Cons list.size(3) One_nat_def Suc_1 min_def)
  then show ?thesis
    using assms by (simp add: getVersionOfCalibration_def load_bytes_ok thenF_Inr)
qed

lemma ProjectionCalibrate_unsupported:
  assumes "getVersionOfCalibration (drop 4 raw) (drop 2 (drop 4 raw)) = Inr v" and "v < 13"
  shows "ProjectionCalibrate L T0 raw len calprms =
           Inr \<lparr>cs_calprms = calprms, cs_TesterData = T0, cs_calls = []\<rparr>"
  using assms by (simp add: ProjectionCalibrate_def thenF_Inr IVCAM_MIN_SUPPORTED_VERSION_def Let_def)


lemma drop_two_bytes:
  assumes "Suc (Suc i) \<le> length xs"
  shows "drop i xs = xs ! i # xs ! Suc i # drop (Suc (Suc i)) xs"
  using assms by (simp add: Cons_nth_drop_Suc)

section \<open>Calibration Decoder: rejected blobs\<close>

text \<open>
  Claim C6. When the two tag bytes after the 4-byte prefix differ from \<open>{0x14, 0x0A}\<close>, or
  the tag is valid and the two version bytes decode to a value below 13, the decoder
  returns with the output parameter struct exactly as it was at entry, with the local
  tester data never written and with no call on the calibration object. The blob has to
  hold the bytes that are inspected (6 for the tag, 8 when the version is read).
\<close>

theorem decoder_rejects_without_writing:
  assumes "(6 \<le> length raw \<and> take 2 (drop 4 raw) \<noteq> [0x14, 0x0A])
         \<or> (8 \<le> length raw \<and> take 2 (drop 4 raw) = [0x14, 0x0A]
              \<and> uint (raw ! 6) * 10 + uint (raw ! 7) < 13)"
  shows "ProjectionCalibrate L T0 raw len calprms =
           Inr \<lparr>cs_calprms = calprms, cs_TesterData = T0, cs_calls = []\<rparr>"
  using assms
proof (elim disjE conjE)
  assume "6 \<le> length raw" and "take 2 (drop 4 raw) \<noteq> [0x14, 0x0A]"
  then have "getVersionOfCalibration (drop 4 raw) (drop 2 (drop 4 raw)) = Inr 0"
    by (intro getVersion_invalid) simp_all
  then show ?thesis
    by (rule ProjectionCalibrate_unsupported) simp
next
  assume len: "8 \<le> length raw" and tag: "take 2 (drop 4 raw) = [0x14, 0x0A]"
    and ver: "uint (raw ! 6) * 10 + uint (raw ! 7) < 13"
  have "drop 2 (drop 4 raw) = raw ! 6 # raw ! 7 # drop 8 raw"
    using len drop_two_bytes [of 6 raw] by (simp add: eval_nat_numeral)
  then have "getVersionOfCalibration (drop 4 raw) (drop 2 (drop 4 raw))
               = Inr (uint (raw ! 6) * 10 + uint (raw ! 7))"
    using tag by (simp add: getVersion_valid bcdtoint_two)
  then show ?thesis
    using ver by (rule ProjectionCalibrate_unsupported)
qed

theorem decoder_rejects_without_writing_witness:
  "ProjectionCalibrate example_layout [7, 7, 7, 7, 7, 7, 7, 7] [1, 2, 3, 4, 0, 0, 1, 3] 8 [9, 9, 9, 9, 9, 9, 9, 9]
     = Inr \<lparr>cs_calprms = [9, 9, 9, 9, 9, 9, 9, 9], cs_TesterData = [7, 7, 7, 7, 7, 7, 7, 7], cs_calls = []\<rparr>
   \<and> ProjectionCalibrate example_layout [7, 7, 7, 7, 7, 7, 7, 7] [1, 2, 3, 4, 0x14, 0x0A, 1, 2] 8 [9, 9, 9, 9, 9, 9, 9, 9]
     = Inr \<lparr>cs_calprms = [9, 9, 9, 9, 9, 9, 9, 9], cs_TesterData = [7, 7, 7, 7, 7, 7, 7, 7], cs_calls = []\<rparr>"
proof
  show "ProjectionCalibrate example_layout [7, 7, 7, 7, 7, 7, 7, 7] [1, 2, 3, 4, 0, 0, 1, 3] 8 [9, 9, 9, 9, 9, 9, 9, 9]
     = Inr \<lparr>cs_calprms = [9, 9, 9, 9, 9, 9, 9, 9], cs_TesterData = [7, 7, 7, 7, 7, 7, 7, 7], cs_calls = []\<rparr>"
    by (rule decoder_rejects_without_writing) simp
  show "ProjectionCalibrate example_layout [7, 7, 7, 7, 7, 7, 7, 7] [1, 2, 3, 4, 0x14, 0x0A, 1, 2] 8 [9, 9, 9, 9, 9, 9, 9, 9]
     = Inr \<lparr>cs_calprms = [9, 9, 9, 9, 9, 9, 9, 9], cs_TesterData = [7, 7, 7, 7, 7, 7, 7, 7], cs_calls = []\<rparr>"
    by (rule decoder_rejects_without_writing) simp
qed

text \<open>
  Claim C10. For any two version bytes the BCD decoder returns \<open>b0 * 10 + b1\<close> (no digit
  is checked against 9: \<open>{0xFF, 0xFF}\<close> gives 2805); version extraction returns 0 for
  every tag other than \<open>{0x14, 0x0A}\<close>; and a blob with the valid tag and version bytes
  \<open>{0x00, 0x00}\<close> has version 0, so that the decoder produces no output and returns the
  very result it returns on any blob with an invalid tag.
\<close>

theorem version_zero_is_rejected:
  "bcdtoint (b0 # b1 # rest) 2 = Inr (uint b0 * 10 + uint b1)
   \<and> (2 \<le> length validation \<and> take 2 validation \<noteq> [0x14, 0x0A]
        \<longrightarrow> getVersionOfCalibration validation version = Inr 0)
   \<and> getVersionOfCalibration ([0x14, 0x0A, 0, 0] @ rest) (drop 2 ([0x14, 0x0A, 0, 0] @ rest)) = Inr 0
   \<and> (length prefix = 4 \<and> 6 \<le> length other \<and> take 2 (drop 4 other) \<noteq> [0x14, 0x0A]
        \<longrightarrow> ProjectionCalibrate L T0 (prefix @ [0x14, 0x0A, 0, 0] @ rest) len calprms
              = Inr \<lparr>cs_calprms = calprms, cs_TesterData = T0, cs_calls = []\<rparr>
          \<and> ProjectionCalibrate L T0 other len' calprms
              = ProjectionCalibrate L T0 (prefix @ [0x14, 0x0A, 0, 0] @ rest) len calprms)"
proof (intro conjI impI)
  show "bcdtoint (b0 # b1 # rest) 2 = Inr (uint b0 * 10 + uint b1)"
    by (rule bcdtoint_two)
  show "getVersionOfCalibration validation version = Inr 0"
    if "2 \<le> length validation \<and> take 2 validation \<noteq> [0x14, 0x0A]"
    using that by (simp add: getVersion_invalid)
  show zero: "getVersionOfCalibration ([0x14, 0x0A, 0, 0] @ rest) (drop 2 ([0x14, 0x0A, 0, 0] @ rest)) = Inr 0"
    by (simp add: getVersion_valid bcdtoint_two)
  assume h: "length prefix = 4 \<and> 6 \<le> length other \<and> take 2 (drop 4 other) \<noteq> [0x14, 0x0A]"
  have "getVersionOfCalibration (drop 4 (prefix @ [0x14, 0x0A, 0, 0] @ rest))
          (drop 2 (drop 4 (prefix @ [0x14, 0x0A, 0, 0] @ rest))) = Inr 0"
    using h zero by simp
  then show valid: "ProjectionCalibrate L T0 (prefix @ [0x14, 0x0A, 0, 0] @ rest) len calprms
              = Inr \<lparr>cs_calprms = calprms, cs_TesterData = T0, cs_calls = []\<rparr>"
    by (rule ProjectionCalibrate_unsupported) simp
  from h have "6 \<le> length other" and "take 2 (drop 4 other) \<noteq> [0x14, 0x0A]"
    by blast+
  then have "2 \<le> length (drop 4 other)" and "take 2 (drop 4 other) \<noteq> [0x14, 0x0A]"
    by simp_all
  then have "getVersionOfCalibration (drop 4 other) (drop 2 (drop 4 other)) = Inr 0"
    by (rule getVersion_invalid)
  then have "ProjectionCalibrate L T0 other len' calprms
              = Inr \<lparr>cs_calprms = calprms, cs_TesterData = T0, cs_calls = []\<rparr>"
    by (rule ProjectionCalibrate_unsupported) simp
  with valid show "ProjectionCalibrate L T0 other len' calprms
              = ProjectionCalibrate L T0 (prefix @ [0x14, 0x0A, 0, 0] @ rest) len calprms"
    by simp
qed

theorem version_zero_is_rejected_witness:
  "bcdtoint [255, 255] 2 = Inr 2805
   \<and> getVersionOfCalibration [0, 0] [1, 3] = Inr 0
   \<and> getVersionOfCalibration [0x14, 0x0A, 0, 0] [0, 0] = Inr 0
   \<and> ProjectionCalibrate example_layout [7, 7, 7, 7, 7, 7, 7, 7] [1, 2, 3, 4, 0x14, 0x0A, 0, 0] 8 [9, 9, 9, 9, 9, 9, 9, 9]
       = Inr \<lparr>cs_calprms = [9, 9, 9, 9, 9, 9, 9, 9], cs_TesterData = [7, 7, 7, 7, 7, 7, 7, 7], cs_calls = []\<rparr>
   \<and> ProjectionCalibrate example_layout [7, 7, 7, 7, 7, 7, 7, 7] [1, 2, 3, 4, 0, 0, 1, 3] 8 [9, 9, 9, 9, 9, 9, 9, 9]
       = ProjectionCalibrate example_layout [7, 7, 7, 7, 7, 7, 7, 7] [1, 2, 3, 4, 0x14, 0x0A, 0, 0] 8 [9, 9, 9, 9, 9, 9, 9, 9]"
  using version_zero_is_rejected [where ?b0.0 = 255 and ?b1.0 = 255 and rest = "[]"
      and validation = "[0, 0]" and version = "[1, 3]" and prefix = "[1, 2, 3, 4]"
      and other = "[1, 2, 3, 4, 0, 0, 1, 3]" and L = example_layout
      and ?T0.0 = "[7, 7, 7, 7, 7, 7, 7, 7]" and len = 8 and len' = 8
      and calprms = "[9, 9, 9, 9, 9, 9, 9, 9]"]
  by simp

section \<open>Conversions between \<^verbatim>\<open>int\<close> and \<^verbatim>\<open>size_t\<close>\<close>

lemma sless_four: "(x <s (4 :: cint)) = (sint x < 4)"
  by (simp add: word_sless_alt)

lemma sless_zero: "(x <s (0 :: cint)) = (sint x < 0)"
  by (simp add: word_sless_alt)

lemma sint_ucast_size_t:
  fixes n :: size_t
  assumes "uint n < 2 ^ 31"
  shows "sint (ucast n :: cint) = uint n"
proof -
  have "sint (ucast n :: cint) = signed_take_bit 31 (uint n)"
    by (simp add: signed_ucast_eq)
  also have "\<dots> = uint n"
  proof (rule signed_take_bit_int_eq_self)
    have "(0 :: int) \<le> uint n"
      by (rule uint_nonnegative)
    then show "- (2 ^ 31) \<le> uint n"
      by (rule order_trans [rotated]) simp
    show "uint n < 2 ^ 31"
      by (rule assms)
  qed
  finally show ?thesis .
qed

lemma unat_scast_cint:
  fixes x :: cint
  assumes "0 \<le> sint x"
  shows "unat (scast x :: size_t) = nat (sint x)"
proof -
  have b: "sint x < 2 ^ 31"
    using sint_lt [of x] by simp
  have "(scast x :: size_t) = word_of_int (sint x)"
    by (rule scast_eq)
  then have "uint (scast x :: size_t) = take_bit 64 (sint x)"
    by (simp only: uint_word_of_int take_bit_eq_mod) simp
  also have "\<dots> = sint x"
    using assms b by (intro take_bit_int_eq_self) simp_all
  finally show ?thesis
    by (simp add: nat_uint_eq [symmetric] del: nat_uint_eq)
qed

lemma sint_cint_bound: "sint (x :: cint) < 2 ^ 31"
  using sint_lt [of x] by simp

lemma not_sless_capacity:
  fixes inSize :: size_t and x :: cint
  assumes "sint x \<le> uint inSize" and "uint inSize < 2 ^ 31"
  shows "\<not> (ucast inSize :: cint) <s x"
  using assms by (simp add: word_sless_alt sint_ucast_size_t)

lemma sless_capacity:
  fixes inSize :: size_t and x :: cint
  assumes "uint inSize < sint x"
  shows "(ucast inSize :: cint) <s x"
proof -
  have "uint inSize < 2 ^ 31"
    using assms sint_cint_bound [of x] by linarith
  then show ?thesis
    using assms by (simp add: word_sless_alt sint_ucast_size_t)
qed

section \<open>Transport Executor: the branches of one exchange\<close>

lemma Execute_too_small:
  assumes "dev_lock_acquired dev" and "\<not> dev_out_ret dev <s 0" and "inSize \<noteq> 0"
    and "\<not> dev_in_xfer dev <s 4" and "4 \<le> length (dev_in_buf dev)"
    and "(ucast inSize :: cint) <s dev_in_xfer dev"
  shows "ExecuteUSBCommand dev out outSize op (Some m) inSize =
           Inr \<lparr>ex_result = Returned (- 1), ex_op = load_le32 (take 4 (dev_in_buf dev)),
                ex_in = Some m, ex_inSize = inSize,
                ex_events = [Lock_acquired, Bulk_out out (ucast outSize), Bulk_in, Unlock]\<rparr>"
  using assms by (simp add: ExecuteUSBCommand_def Let_def load_bytes_ok thenF_Inr)

lemma Execute_copied:
  assumes "dev_lock_acquired dev" and "\<not> dev_out_ret dev <s 0" and "inSize \<noteq> 0"
    and "\<not> dev_in_xfer dev <s 4" and "4 \<le> length (dev_in_buf dev)"
    and "\<not> (ucast inSize :: cint) <s dev_in_xfer dev"
    and "nat (sint (dev_in_xfer dev)) \<le> length (dev_in_buf dev)"
    and "nat (sint (dev_in_xfer dev)) \<le> length m"
  shows "ExecuteUSBCommand dev out outSize op (Some m) inSize =
           Inr \<lparr>ex_result = Returned (dev_in_ret dev),
                ex_op = load_le32 (take 4 (dev_in_buf dev)),
                ex_in = Some (take (nat (sint (dev_in_xfer dev))) (dev_in_buf dev)
                              @ drop (nat (sint (dev_in_xfer dev))) m),
                ex_inSize = scast (dev_in_xfer dev),
                ex_events = [Lock_acquired, Bulk_out out (ucast outSize), Bulk_in, Unlock]\<rparr>"
proof -
  have "0 \<le> sint (dev_in_xfer dev)"
    using assms(4) by (simp add: sless_four)
  then have n: "unat (scast (dev_in_xfer dev) :: size_t) = nat (sint (dev_in_xfer dev))"
    by (rule unat_scast_cint)
  show ?thesis
    using assms by (simp add: ExecuteUSBCommand_def Let_def load_bytes_ok store_bytes_ok thenF_Inr n min_def)
qed

lemma Execute_out_failure:
  assumes "dev_lock_acquired dev" and "dev_out_ret dev <s 0"
  shows "ExecuteUSBCommand dev out outSize op inbuf inSize =
           Inr \<lparr>ex_result = Returned (dev_out_ret dev), ex_op = op, ex_in = inbuf,
                ex_inSize = inSize,
                ex_events = [Lock_acquired, Bulk_out out (ucast outSize)]\<rparr>"
  using assms by (simp add: ExecuteUSBCommand_def Let_def)

text \<open>
  Claim C9. On the buffer-too-small branch (lock held, OUT transfer accepted, a response
  expected, at least 4 bytes received, and more bytes received than the capacity the
  caller announced) the call returns -1 after it has stored the first 4 bytes of the
  response in the status-word output \<open>op\<close>; the caller's buffer and the size output are
  as they were at entry.
\<close>

theorem status_written_before_too_small:
  assumes "dev_lock_acquired dev" and "\<not> dev_out_ret dev <s 0"
    and "inSize \<noteq> 0"
    and "length (dev_in_buf dev) = IVCAM_MONITOR_MAX_BUFFER_SIZE"
    and "\<not> dev_in_xfer dev <s 4"
    and "(ucast inSize :: cint) <s dev_in_xfer dev"
  shows "ExecuteUSBCommand dev out outSize op (Some m) inSize =
           Inr \<lparr>ex_result = Returned (- 1), ex_op = load_le32 (take 4 (dev_in_buf dev)),
                ex_in = Some m, ex_inSize = inSize,
                ex_events = [Lock_acquired, Bulk_out out (ucast outSize), Bulk_in, Unlock]\<rparr>"
  using assms by (intro Execute_too_small) (simp_all add: IVCAM_MONITOR_MAX_BUFFER_SIZE_def)

theorem status_written_before_too_small_witness:
  "ExecuteUSBCommand eight_byte_device [] 0 0 (Some [9, 9, 9, 9, 9, 9]) 6 =
     Inr \<lparr>ex_result = Returned (- 1), ex_op = 0x04030201,
          ex_in = Some [9, 9, 9, 9, 9, 9], ex_inSize = 6,
          ex_events = [Lock_acquired, Bulk_out [] 0, Bulk_in, Unlock]\<rparr>"
  using status_written_before_too_small [of eight_byte_device 6 "[]" 0 0 "[9, 9, 9, 9, 9, 9]"]
  by (simp add: eight_byte_device_def IVCAM_MONITOR_MAX_BUFFER_SIZE_def load_le32_def)

text \<open>
  Claim C3, as stated, fails. With a 4-byte response and a caller buffer of 8 bytes the
  reported size is 4, not 0, and the four status bytes are the first four bytes of the
  caller's buffer; with a capacity of 3 the same response is rejected with -1.
\<close>

theorem status_only_reports_four_bytes:
  "ExecuteUSBCommand status_only_device [] 0 0 (Some [9, 9, 9, 9, 9, 9, 9, 9]) 8 =
     Inr \<lparr>ex_result = Returned 0, ex_op = 0x04030201,
          ex_in = Some [1, 2, 3, 4, 9, 9, 9, 9], ex_inSize = 4,
          ex_events = [Lock_acquired, Bulk_out [] 0, Bulk_in, Unlock]\<rparr>
   \<and> (4 :: size_t) \<noteq> 0
   \<and> ExecuteUSBCommand status_only_device [] 0 0 (Some [9, 9, 9]) 3 =
     Inr \<lparr>ex_result = Returned (- 1), ex_op = 0x04030201,
          ex_in = Some [9, 9, 9], ex_inSize = 3,
          ex_events = [Lock_acquired, Bulk_out [] 0, Bulk_in, Unlock]\<rparr>"
  by (simp add: ExecuteUSBCommand_def status_only_device_def Let_def load_bytes_def
      store_bytes_def thenF_def load_le32_def)

text \<open>
  Claim C3, amended. When the IN transfer returns exactly 4 bytes and the caller's
  capacity is at least 4 (and below \<open>2^31\<close>, so that the conversion to \<^verbatim>\<open>int\<close> keeps it),
  the call takes no failure branch: it returns the IN transfer's own result code, the 4
  bytes are the status word, the reported size is 4 and the status word is copied into
  the first 4 bytes of the caller's buffer.
\<close>

theorem status_only_response_copied:
  assumes "dev_lock_acquired dev" and "\<not> dev_out_ret dev <s 0"
    and "length (dev_in_buf dev) = IVCAM_MONITOR_MAX_BUFFER_SIZE"
    and "dev_in_xfer dev = 4"
    and "4 \<le> uint inSize" and "uint inSize < 2 ^ 31" and "unat inSize \<le> length m"
  shows "ExecuteUSBCommand dev out outSize op (Some m) inSize =
           Inr \<lparr>ex_result = Returned (dev_in_ret dev),
                ex_op = load_le32 (take 4 (dev_in_buf dev)),
                ex_in = Some (take 4 (dev_in_buf dev) @ drop 4 m),
                ex_inSize = 4,
                ex_events = [Lock_acquired, Bulk_out out (ucast outSize), Bulk_in, Unlock]\<rparr>"
proof -
  have cap: "\<not> (ucast inSize :: cint) <s dev_in_xfer dev"
  proof (rule not_sless_capacity)
    show "sint (dev_in_xfer dev) \<le> uint inSize"
      using assms(4,5) by simp
    show "uint inSize < 2 ^ 31"
      by (rule assms(6))
  qed
  have nz: "inSize \<noteq> 0"
    using assms(5) by auto
  have len: "4 \<le> length m"
    using assms(5,7) uint_nat [of inSize] by linarith
  have "ExecuteUSBCommand dev out outSize op (Some m) inSize =
           Inr \<lparr>ex_result = Returned (dev_in_ret dev),
                ex_op = load_le32 (take 4 (dev_in_buf dev)),
                ex_in = Some (take (nat (sint (dev_in_xfer dev))) (dev_in_buf dev)
                              @ drop (nat (sint (dev_in_xfer dev))) m),
                ex_inSize = scast (dev_in_xfer dev),
                ex_events = [Lock_acquired, Bulk_out out (ucast outSize), Bulk_in, Unlock]\<rparr>"
    using assms nz cap len
    by (intro Execute_copied) (simp_all add: IVCAM_MONITOR_MAX_BUFFER_SIZE_def)
  then show ?thesis
    using assms(4) by simp
qed

theorem status_only_response_copied_witness:
  "ExecuteUSBCommand status_only_device [] 0 0 (Some [9, 9, 9, 9, 9, 9, 9, 9]) 8 =
     Inr \<lparr>ex_result = Returned 0, ex_op = 0x04030201,
          ex_in = Some [1, 2, 3, 4, 9, 9, 9, 9], ex_inSize = 4,
          ex_events = [Lock_acquired, Bulk_out [] 0, Bulk_in, Unlock]\<rparr>"
  using status_only_response_copied [of status_only_device 8 "[9, 9, 9, 9, 9, 9, 9, 9]" "[]" 0 0]
  by (simp add: status_only_device_def IVCAM_MONITOR_MAX_BUFFER_SIZE_def load_le32_def)

text \<open>
  Claim C8, as stated, fails in its second half. A response of 8 bytes carries a payload
  of 4 bytes after the status word; a caller capacity of 6 holds that payload, and the
  call is rejected with -1 all the same.
\<close>

theorem fitting_payload_rejected:
  "sint (dev_in_xfer eight_byte_device) - 4 \<le> uint (6 :: size_t)
   \<and> ExecuteUSBCommand eight_byte_device [] 0 0 (Some [9, 9, 9, 9, 9, 9]) 6 =
     Inr \<lparr>ex_result = Returned (- 1), ex_op = 0x04030201,
          ex_in = Some [9, 9, 9, 9, 9, 9], ex_inSize = 6,
          ex_events = [Lock_acquired, Bulk_out [] 0, Bulk_in, Unlock]\<rparr>"
  by (simp add: ExecuteUSBCommand_def eight_byte_device_def Let_def load_bytes_def
      store_bytes_def thenF_def load_le32_def)

text \<open>
  Claim C8, amended. The length compared with the caller's capacity is that of the whole
  response, status word included. When at least 4 bytes were received: if the response is
  longer than the capacity the call returns -1 and the caller's buffer and size are
  untouched (nothing is truncated into it); if the response is no longer than the capacity
  (a capacity below \<open>2^31\<close>, a response of at most 1024 bytes, a buffer as large as
  announced) the call is not rejected and the whole response is copied.
\<close>

theorem whole_response_against_capacity:
  assumes "dev_lock_acquired dev" and "\<not> dev_out_ret dev <s 0" and "inSize \<noteq> 0"
    and "length (dev_in_buf dev) = IVCAM_MONITOR_MAX_BUFFER_SIZE"
    and "\<not> dev_in_xfer dev <s 4"
  shows "(uint inSize < sint (dev_in_xfer dev) \<longrightarrow>
           ExecuteUSBCommand dev out outSize op (Some m) inSize =
             Inr \<lparr>ex_result = Returned (- 1), ex_op = load_le32 (take 4 (dev_in_buf dev)),
                  ex_in = Some m, ex_inSize = inSize,
                  ex_events = [Lock_acquired, Bulk_out out (ucast outSize), Bulk_in, Unlock]\<rparr>)
       \<and> (sint (dev_in_xfer dev) \<le> uint inSize \<and> uint inSize < 2 ^ 31
            \<and> sint (dev_in_xfer dev) \<le> int IVCAM_MONITOR_MAX_BUFFER_SIZE
            \<and> unat inSize \<le> length m \<longrightarrow>
           ExecuteUSBCommand dev out outSize op (Some m) inSize =
             Inr \<lparr>ex_result = Returned (dev_in_ret dev),
                  ex_op = load_le32 (take 4 (dev_in_buf dev)),
                  ex_in = Some (take (nat (sint (dev_in_xfer dev))) (dev_in_buf dev)
                                @ drop (nat (sint (dev_in_xfer dev))) m),
                  ex_inSize = scast (dev_in_xfer dev),
                  ex_events = [Lock_acquired, Bulk_out out (ucast outSize), Bulk_in, Unlock]\<rparr>)"
proof (intro conjI impI)
  assume "uint inSize < sint (dev_in_xfer dev)"
  then have "(ucast inSize :: cint) <s dev_in_xfer dev"
    by (rule sless_capacity)
  with assms show "ExecuteUSBCommand dev out outSize op (Some m) inSize =
             Inr \<lparr>ex_result = Returned (- 1), ex_op = load_le32 (take 4 (dev_in_buf dev)),
                  ex_in = Some m, ex_inSize = inSize,
                  ex_events = [Lock_acquired, Bulk_out out (ucast outSize), Bulk_in, Unlock]\<rparr>"
    by (intro Execute_too_small) (simp_all add: IVCAM_MONITOR_MAX_BUFFER_SIZE_def)
next
  assume fit: "sint (dev_in_xfer dev) \<le> uint inSize \<and> uint inSize < 2 ^ 31
            \<and> sint (dev_in_xfer dev) \<le> int IVCAM_MONITOR_MAX_BUFFER_SIZE
            \<and> unat inSize \<le> length m"
  then have cap: "\<not> (ucast inSize :: cint) <s dev_in_xfer dev"
    by (intro not_sless_capacity) simp_all
  have m: "nat (sint (dev_in_xfer dev)) \<le> length m"
    using fit uint_nat [of inSize] by linarith
  have b: "nat (sint (dev_in_xfer dev)) \<le> length (dev_in_buf dev)"
    using fit assms(4) by linarith
  from assms cap m b show "ExecuteUSBCommand dev out outSize op (Some m) inSize =
             Inr \<lparr>ex_result = Returned (dev_in_ret dev),
                  ex_op = load_le32 (take 4 (dev_in_buf dev)),
                  ex_in = Some (take (nat (sint (dev_in_xfer dev))) (dev_in_buf dev)
                                @ drop (nat (sint (dev_in_xfer dev))) m),
                  ex_inSize = scast (dev_in_xfer dev),
                  ex_events = [Lock_acquired, Bulk_out out (ucast outSize), Bulk_in, Unlock]\<rparr>"
    by (intro Execute_copied) (simp_all add: IVCAM_MONITOR_MAX_BUFFER_SIZE_def)
qed

theorem whole_response_against_capacity_witness:
  "ExecuteUSBCommand eight_byte_device [] 0 0 (Some [9, 9, 9, 9, 9, 9, 9]) 7 =
     Inr \<lparr>ex_result = Returned (- 1), ex_op = 0x04030201,
          ex_in = Some [9, 9, 9, 9, 9, 9, 9], ex_inSize = 7,
          ex_events = [Lock_acquired, Bulk_out [] 0, Bulk_in, Unlock]\<rparr>
   \<and> ExecuteUSBCommand eight_byte_device [] 0 0 (Some [9, 9, 9, 9, 9, 9, 9, 9, 9]) 9 =
     Inr \<lparr>ex_result = Returned 0, ex_op = 0x04030201,
          ex_in = Some [1, 2, 3, 4, 5, 6, 7, 8, 9], ex_inSize = 8,
          ex_events = [Lock_acquired, Bulk_out [] 0, Bulk_in, Unlock]\<rparr>"
  using whole_response_against_capacity [of eight_byte_device 7 "[]" 0 0 "[9, 9, 9, 9, 9, 9, 9]"]
    whole_response_against_capacity [of eight_byte_device 9 "[]" 0 0 "[9, 9, 9, 9, 9, 9, 9, 9, 9]"]
  by (simp add: eight_byte_device_def IVCAM_MONITOR_MAX_BUFFER_SIZE_def load_le32_def)

section \<open>Transport Executor: the lock\<close>

text \<open>
  Between acquisition and return \<^verbatim>\<open>usbMutex.unlock()\<close> is called once on every branch
  but the one that follows a negative OUT transfer, where it is not called at all.
\<close>

lemma unlock_count:
  assumes "dev_lock_acquired dev" and "ExecuteUSBCommand dev out outSize op inbuf inSize = Inr st"
  shows "count_list (ex_events st) Unlock = (if dev_out_ret dev <s 0 then 0 else 1)"
  using assms
  by (auto simp add: ExecuteUSBCommand_def Let_def thenF_def split: if_splits sum.splits)

text \<open>
  Claim C1 at the failing input. The lock is acquired and the OUT transfer returns -7:
  the call returns -7 and the recorded calls end with the OUT transfer, with no
  \<^verbatim>\<open>unlock\<close>; the lock stays held.
\<close>

theorem out_failure_leaks_lock:
  "ExecuteUSBCommand out_failure_device [] 0 0 (Some [9, 9, 9, 9, 9, 9]) 6 =
     Inr \<lparr>ex_result = Returned (- 7), ex_op = 0,
          ex_in = Some [9, 9, 9, 9, 9, 9], ex_inSize = 6,
          ex_events = [Lock_acquired, Bulk_out [] 0]\<rparr>
   \<and> count_list [Lock_acquired, Bulk_out [] 0] Unlock = 0"
  by (simp add: ExecuteUSBCommand_def out_failure_device_def Let_def word_sless_alt)


section \<open>Calibration Fetcher: a failed OUT transfer\<close>

lemma Prepare_header_only:
  assumes "length request0 = 24"
  shows "PrepareUSBCommand request0 (of_nat IVCAM_MONITOR_HEADER_SIZE) opc p1 p2 p3 p4 [] 0 =
           Inr \<lparr>frame_request = le16 20 @ le16 IVCAM_MONITOR_MAGIC_NUMBER @ le32 opc @ le32 p1
                                  @ le32 p2 @ le32 p3 @ le32 p4,
                frame_requestSize = 24, frame_return = 24\<rparr>"
  using assms
  by (simp add: PrepareUSBCommand_def IVCAM_MONITOR_HEADER_SIZE_def store_bytes_def thenF_def
      le16_def le32_def)

lemma Fetch_out_failure:
  assumes "length request0 = 24" and "dev_lock_acquired dev"
    and "dev_out_ret dev <s 0" and "dev_out_ret dev \<noteq> - 1"
  shows "GetCalibrationRawData dev request0 responseOp0 data bytesReturned =
           Inr \<lparr>fetch_result = Returned (), fetch_data = data,
                fetch_bytesReturned = bytesReturned,
                fetch_events = [Lock_acquired,
                  Bulk_out (le16 20 @ le16 IVCAM_MONITOR_MAGIC_NUMBER @ le32 GetCalibrationTable
                            @ le32 0 @ le32 0 @ le32 0 @ le32 0) 24]\<rparr>"
  using assms
  by (simp add: GetCalibrationRawData_def Prepare_header_only thenF_Inr Execute_out_failure
      word_sless_alt)

text \<open>
  Claim C2 at the failing input. The OUT transfer returns -7; the executor returns -7,
  which is not the -1 the fetcher compares with, and the fetcher returns normally with
  the caller's buffer and \<^verbatim>\<open>bytesReturned\<close> (1000) as they were: no byte was received.
\<close>

theorem fetch_returns_after_out_failure:
  "GetCalibrationRawData out_failure_device (replicate 24 0) 0 (Some (replicate 1000 0)) 1000 =
     Inr \<lparr>fetch_result = Returned (), fetch_data = Some (replicate 1000 0),
          fetch_bytesReturned = 1000,
          fetch_events = [Lock_acquired,
            Bulk_out [20, 0, 0xAB, 0xCD, 0x3D, 0, 0, 0, 0, 0, 0, 0, 0, 0, 0, 0, 0, 0, 0, 0, 0, 0, 0, 0] 24]\<rparr>"
proof -
  have "dev_out_ret out_failure_device <s 0" and "dev_out_ret out_failure_device \<noteq> - 1"
    by (simp_all add: out_failure_device_def word_sless_alt)
  then show ?thesis
    by (simp add: Fetch_out_failure out_failure_device_def le16_def le32_def
        IVCAM_MONITOR_MAGIC_NUMBER_def GetCalibrationTable_def)
qed

section \<open>Calibration Decoder: the two layouts\<close>

lemma unat_sizeof_minus_header:
  assumes "4 \<le> n" and "n < 2 ^ 64"
  shows "unat ((of_nat n :: size_t) - 4) = n - 4"
proof -
  have n: "unat (of_nat n :: size_t) = n"
    using assms(2) by (simp add: unat_of_nat)
  have "unat ((of_nat n :: size_t) - 4) = unat (of_nat n :: size_t) - unat (4 :: size_t)"
    using assms(1) n by (intro unat_sub) (simp add: word_le_nat_alt)
  then show ?thesis
    using n by simp
qed

lemma version_of_blob:
  assumes "8 \<le> length raw" and "take 2 (drop 4 raw) = [0x14, 0x0A]"
  shows "getVersionOfCalibration (drop 4 raw) (drop 2 (drop 4 raw))
           = Inr (uint (raw ! 6) * 10 + uint (raw ! 7))"
proof -
  have "drop 2 (drop 4 raw) = raw ! 6 # raw ! 7 # drop 8 raw"
    using assms(1) drop_two_bytes [of 6 raw] by (simp add: eval_nat_numeral)
  then show ?thesis
    using assms(2) by (simp add: getVersion_valid bcdtoint_two)
qed

text \<open>
  Claim C5. For a blob with tag \<open>{0x14, 0x0A}\<close> and version bytes decoding to 13 the
  decoder hands the 100-float array to \<^verbatim>\<open>buildParameters\<close>, fills the parameter struct
  from the bytes that start at float 1 of that array (byte 8 of the raw transfer, the
  first float skipped), builds the tester data from the 4 header bytes followed by
  zeros, and makes no call to \<^verbatim>\<open>InitializeThermalData\<close>. The raw buffer has to hold
  the bytes that are read.
\<close>

theorem legacy_layout_decoded:
  assumes "take 2 (drop 4 raw) = [0x14, 0x0A]"
    and "uint (raw ! 6) * 10 + uint (raw ! 7) = 13"
    and "8 + sizeof_CameraCalibrationParameters L \<le> length raw"
    and "length calprms = sizeof_CameraCalibrationParameters L"
    and "length T0 = sizeof_IVCAMTesterData L"
    and "4 \<le> sizeof_IVCAMTesterData L" and "sizeof_IVCAMTesterData L < 2 ^ 64"
  shows "ProjectionCalibrate L T0 raw len calprms =
           Inr \<lparr>cs_calprms = take (sizeof_CameraCalibrationParameters L) (drop 8 raw),
                cs_TesterData = take 4 (drop 4 raw) @ replicate (sizeof_IVCAMTesterData L - 4) 0,
                cs_calls = [buildParameters_floats (drop 4 raw) 100]\<rparr>"
proof -
  have "8 \<le> length raw"
    using assms(3) by linarith
  then have "getVersionOfCalibration (drop 4 raw) (drop 2 (drop 4 raw))
               = Inr (uint (raw ! 6) * 10 + uint (raw ! 7))"
    using assms(1) by (rule version_of_blob)
  then have ver: "getVersionOfCalibration (drop 4 raw) (drop 2 (drop 4 raw)) = Inr 13"
    by (simp only: assms(2))
  have fill: "unat ((of_nat (sizeof_IVCAMTesterData L) :: size_t) - 4)
                = sizeof_IVCAMTesterData L - 4"
    using assms(6,7) by (rule unat_sizeof_minus_header)
  have "ProjectionCalibrate L T0 raw len calprms =
          thenF (load_bytes (drop 4 raw) 4 (sizeof_CameraCalibrationParameters L)) (\<lambda>src.
          thenF (store_bytes calprms 0 src) (\<lambda>calprms.
          thenF (load_bytes (drop 4 raw) 0 SIZE_OF_CALIB_HEADER_BYTES) (\<lambda>hdr.
          thenF (store_bytes T0 0 hdr) (\<lambda>TesterData.
          thenF (store_bytes TesterData SIZE_OF_CALIB_HEADER_BYTES
                   (replicate (unat ((of_nat (sizeof_IVCAMTesterData L) :: size_t)
                                     - of_nat SIZE_OF_CALIB_HEADER_BYTES)) 0)) (\<lambda>TesterData.
            Inr \<lparr>cs_calprms = calprms, cs_TesterData = TesterData,
                 cs_calls = [buildParameters_floats (drop 4 raw) 100]\<rparr>)))))"
    unfolding ProjectionCalibrate_def Let_def
    by (simp only: ver thenF_Inr IVCAM_MIN_SUPPORTED_VERSION_def simp_thms if_True)
  also have "\<dots> = Inr \<lparr>cs_calprms = take (sizeof_CameraCalibrationParameters L) (drop 8 raw),
                cs_TesterData = take 4 (drop 4 raw) @ replicate (sizeof_IVCAMTesterData L - 4) 0,
                cs_calls = [buildParameters_floats (drop 4 raw) 100]\<rparr>"
    using assms(3-6)
    by (simp add: thenF_Inr load_bytes_ok store_bytes_ok fill SIZE_OF_CALIB_HEADER_BYTES_def)
  finally show ?thesis .
qed

theorem legacy_layout_decoded_witness:
  "ProjectionCalibrate example_layout [7, 7, 7, 7, 7, 7, 7, 7] legacy_blob 16 [9, 9, 9, 9, 9, 9, 9, 9] =
     Inr \<lparr>cs_calprms = [20, 21, 22, 23, 24, 25, 26, 27],
          cs_TesterData = [0x14, 0x0A, 1, 3] @ replicate 4 0,
          cs_calls = [buildParameters_floats [0x14, 0x0A, 1, 3, 20, 21, 22, 23, 24, 25, 26, 27] 100]\<rparr>"
  using legacy_layout_decoded [of legacy_blob example_layout "[9, 9, 9, 9, 9, 9, 9, 9]"
      "[7, 7, 7, 7, 7, 7, 7, 7]" 16]
  by (simp add: legacy_blob_def example_layout_def)


lemma sint_of_nat_cint:
  assumes "n < 2 ^ 31"
  shows "sint (of_nat n :: cint) = int n"
proof -
  have "(of_nat n :: cint) = word_of_int (int n)"
    by simp
  then have "sint (of_nat n :: cint) = signed_take_bit 31 (int n)"
    by (simp only: sint_sbintrunc') simp
  also have "\<dots> = int n"
  proof (rule signed_take_bit_int_eq_self)
    have "(0 :: int) \<le> int n"
      by simp
    then show "- (2 ^ 31) \<le> int n"
      by (rule order_trans [rotated]) simp
    show "int n < 2 ^ 31"
      using assms by simp
  qed
  finally show ?thesis .
qed

lemma unat_minus_four:
  fixes w :: size_t
  assumes "4 \<le> unat w"
  shows "unat (w - 4) = unat w - 4"
proof -
  have "unat (w - 4) = unat w - unat (4 :: size_t)"
    using assms by (intro unat_sub) (simp add: word_le_nat_alt)
  then show ?thesis
    by simp
qed

lemma copy_length:
  fixes len :: cint
  assumes "4 \<le> sint len" and "4 \<le> n" and "n < 2 ^ 31"
  shows "unat ((scast (if (scast len :: size_t) < of_nat n then len else (of_nat n :: cint)) :: size_t) - 4)
           = min n (nat (sint len)) - 4"
proof -
  have l: "unat (scast len :: size_t) = nat (sint len)"
    using assms(1) by (intro unat_scast_cint) simp
  have "n < 2 ^ 64"
    using assms(3) by (rule less_trans) simp
  then have n: "unat (of_nat n :: size_t) = n"
    by (simp add: unat_of_nat)
  have sn: "sint (of_nat n :: cint) = int n"
    using assms(3) by (rule sint_of_nat_cint)
  then have "unat (scast (of_nat n :: cint) :: size_t) = nat (sint (of_nat n :: cint))"
    by (intro unat_scast_cint) simp
  then have cn: "unat (scast (of_nat n :: cint) :: size_t) = n"
    using sn by simp
  have c: "((scast len :: size_t) < of_nat n) = (nat (sint len) < n)"
    by (simp only: word_less_nat_alt l n)
  show ?thesis
  proof (cases "nat (sint len) < n")
    case True
    have "unat ((scast len :: size_t) - 4) = nat (sint len) - 4"
      using assms(1) l unat_minus_four [of "scast len"] by simp
    then show ?thesis
      using True by (simp only: c if_True min_def; simp)
  next
    case False
    have "unat ((scast (of_nat n :: cint) :: size_t) - 4) = n - 4"
      using assms(2) cn unat_minus_four [of "scast (of_nat n :: cint)"] by simp
    then show ?thesis
      using False by (simp only: c if_False min_def; simp)
  qed
qed

lemma replicate_four: "replicate 4 x = [x, x, x, x]"
  by (simp add: numeral_eq_Suc)

text \<open>
  Claim C4, as stated, fails. With a versioned struct of 16 bytes whose parameter member
  is at offset 8 and a received length of 12, the decoder copies 8 bytes, not 12, to
  offset 4 of the zeroed struct: the member is \<open>[20, 21, 22, 23, 0, 0, 0, 0]\<close>, where a
  copy of \<open>min(16, 12)\<close> bytes would give \<open>[20, ..., 27]\<close>.
\<close>

theorem copy_is_four_bytes_shorter:
  "ProjectionCalibrate example_layout [7, 7, 7, 7, 7, 7, 7, 7] versioned_blob 12 [9, 9, 9, 9, 9, 9, 9, 9] =
     Inr \<lparr>cs_calprms = [20, 21, 22, 23, 0, 0, 0, 0],
          cs_TesterData = [0x14, 0x0A, 1, 4, 50, 51, 52, 53],
          cs_calls = [buildParameters_struct [20, 21, 22, 23, 0, 0, 0, 0],
                      InitializeThermalData [0x14, 0x0A, 1, 4, 50, 51, 52, 53]]\<rparr>
   \<and> take (sizeof_CameraCalibrationParameters example_layout)
        (drop (offsetof_CalibrationParameters example_layout)
           (CalibrationData_as_claimed example_layout versioned_blob 12))
       = [20, 21, 22, 23, 24, 25, 26, 27]"
  by (simp add: ProjectionCalibrate_def getVersionOfCalibration_def bcdtoint_two
      load_bytes_def store_bytes_def thenF_def Let_def
      CalibrationData_as_claimed_def versioned_blob_def example_layout_def
      IVCAM_MIN_SUPPORTED_VERSION_def SIZE_OF_CALIB_PARAM_BYTES_def
      SIZE_OF_CALIB_HEADER_BYTES_def replicate_four)

text \<open>
  Claim C4, amended. For a blob with tag \<open>{0x14, 0x0A}\<close> and a version above 13 (received
  length at least 4, buffers holding the bytes that are read) the decoder copies
  \<open>min(sizeof(versioned-struct), received length) - 4\<close> bytes of the blob after the prefix
  to just past the leading integer field of the zeroed versioned struct, fills the
  parameter struct from the member \<^verbatim>\<open>CalibrationParameters\<close> of that struct, builds the
  tester data from the 4 header bytes and the bytes at offset \<open>512 + 4\<close> of the blob after
  the prefix, and calls \<^verbatim>\<open>buildParameters\<close> and then \<^verbatim>\<open>InitializeThermalData\<close>.
\<close>

theorem versioned_layout_decoded:
  assumes "take 2 (drop 4 raw) = [0x14, 0x0A]"
    and "13 < uint (raw ! 6) * 10 + uint (raw ! 7)"
    and "4 \<le> sint len"
    and "4 \<le> sizeof_CameraCalibrationParametersVersion L"
    and "sizeof_CameraCalibrationParametersVersion L < 2 ^ 31"
    and "offsetof_CalibrationParameters L + sizeof_CameraCalibrationParameters L
           \<le> sizeof_CameraCalibrationParametersVersion L"
    and "4 \<le> sizeof_IVCAMTesterData L" and "sizeof_IVCAMTesterData L < 2 ^ 64"
    and "min (sizeof_CameraCalibrationParametersVersion L) (nat (sint len)) \<le> length raw"
    and "4 + (SIZE_OF_CALIB_PARAM_BYTES + SIZE_OF_CALIB_HEADER_BYTES)
           + (sizeof_IVCAMTesterData L - 4) \<le> length raw"
    and "length calprms = sizeof_CameraCalibrationParameters L"
    and "length T0 = sizeof_IVCAMTesterData L"
  shows "ProjectionCalibrate L T0 raw len calprms =
          (let k = min (sizeof_CameraCalibrationParametersVersion L) (nat (sint len));
               CalibrationData = replicate 4 0 @ take (k - 4) (drop 4 raw)
                   @ replicate (sizeof_CameraCalibrationParametersVersion L - k) 0;
               member = take (sizeof_CameraCalibrationParameters L)
                          (drop (offsetof_CalibrationParameters L) CalibrationData);
               TesterData = take 4 (drop 4 raw)
                   @ take (sizeof_IVCAMTesterData L - 4) (drop (4 + (512 + 4)) raw)
           in Inr \<lparr>cs_calprms = member, cs_TesterData = TesterData,
                   cs_calls = [buildParameters_struct member, InitializeThermalData TesterData]\<rparr>)"
proof -
  let ?SV = "sizeof_CameraCalibrationParametersVersion L"
  let ?v = "uint (raw ! 6) * 10 + uint (raw ! 7)"
  have raw8: "8 \<le> length raw"
    using assms(7,10) by (simp add: SIZE_OF_CALIB_PARAM_BYTES_def SIZE_OF_CALIB_HEADER_BYTES_def)
  then have ver: "getVersionOfCalibration (drop 4 raw) (drop 2 (drop 4 raw)) = Inr ?v"
    using assms(1) by (rule version_of_blob)
  have dispatch: "(?v = 13) = False" "(13 < ?v) = True"
    using assms(2) by simp_all
  have n: "unat ((scast (if (scast len :: size_t) < of_nat ?SV then len else (of_nat ?SV :: cint)) :: size_t) - 4)
             = min ?SV (nat (sint len)) - 4"
    using assms(3,4,5) by (rule copy_length)
  have fill: "unat ((of_nat (sizeof_IVCAMTesterData L) :: size_t) - 4)
                = sizeof_IVCAMTesterData L - 4"
    using assms(7,8) by (rule unat_sizeof_minus_header)
  define k where "k = min ?SV (nat (sint len))"
  have k: "4 \<le> k" "k \<le> ?SV" "k \<le> length raw"
    using assms(3,4,9) by (simp_all add: k_def)
  define src where "src = take (k - 4) (drop 4 raw)"
  define CD where "CD = replicate 4 (0 :: byte) @ src @ replicate (?SV - k) 0"
  define member where "member = take (sizeof_CameraCalibrationParameters L)
                                  (drop (offsetof_CalibrationParameters L) CD)"
  define hdr where "hdr = take 4 (drop 4 raw)"
  define tester where "tester = take (sizeof_IVCAMTesterData L - 4) (drop (4 + (512 + 4)) raw)"
  have lsrc: "length src = k - 4"
    using k by (simp add: src_def)
  have lCD: "length CD = ?SV"
    using k lsrc by (simp add: CD_def)
  have lmember: "length member = sizeof_CameraCalibrationParameters L"
    using assms(6) lCD by (simp add: member_def)
  have lhdr: "length hdr = 4"
    using raw8 by (simp add: hdr_def)
  have ltester: "length tester = sizeof_IVCAMTesterData L - 4"
    using assms(10)
    by (simp add: tester_def SIZE_OF_CALIB_PARAM_BYTES_def SIZE_OF_CALIB_HEADER_BYTES_def)
  have s1: "load_bytes (drop 4 raw) 0 (k - 4) = Inr src"
    using k by (simp add: load_bytes_ok src_def)
  have s2: "store_bytes (replicate ?SV 0) 4 src = Inr CD"
    using k lsrc by (simp add: store_bytes_ok CD_def)
  have s3: "load_bytes CD (offsetof_CalibrationParameters L) (sizeof_CameraCalibrationParameters L)
              = Inr member"
    using assms(6) lCD by (simp add: load_bytes_ok member_def)
  have s4: "store_bytes calprms 0 member = Inr member"
    using assms(11) lmember by (simp add: store_bytes_ok)
  have s5: "load_bytes (drop 4 raw) 0 SIZE_OF_CALIB_HEADER_BYTES = Inr hdr"
    using raw8 by (simp add: load_bytes_ok hdr_def SIZE_OF_CALIB_HEADER_BYTES_def)
  have s6: "store_bytes T0 0 hdr = Inr (hdr @ drop 4 T0)"
    using assms(7,12) lhdr by (simp add: store_bytes_ok)
  have s7: "load_bytes (drop 4 raw) (SIZE_OF_CALIB_PARAM_BYTES + SIZE_OF_CALIB_HEADER_BYTES)
              (unat ((of_nat (sizeof_IVCAMTesterData L) :: size_t)
                     - of_nat SIZE_OF_CALIB_HEADER_BYTES)) = Inr tester"
    using assms(10)
    by (simp add: load_bytes_ok tester_def fill SIZE_OF_CALIB_PARAM_BYTES_def
        SIZE_OF_CALIB_HEADER_BYTES_def)
  have s8: "store_bytes (hdr @ drop 4 T0) SIZE_OF_CALIB_HEADER_BYTES tester = Inr (hdr @ tester)"
    using assms(7,12) lhdr ltester
    by (simp add: store_bytes_ok SIZE_OF_CALIB_HEADER_BYTES_def)
  have "ProjectionCalibrate L T0 raw len calprms =
          thenF (load_bytes (drop 4 raw) 0 (k - 4)) (\<lambda>src.
          thenF (store_bytes (replicate ?SV 0) 4 src) (\<lambda>CalibrationData.
          thenF (load_bytes CalibrationData (offsetof_CalibrationParameters L)
                   (sizeof_CameraCalibrationParameters L)) (\<lambda>member.
          thenF (store_bytes calprms 0 member) (\<lambda>calprms.
          thenF (load_bytes (drop 4 raw) 0 SIZE_OF_CALIB_HEADER_BYTES) (\<lambda>hdr.
          thenF (store_bytes T0 0 hdr) (\<lambda>TesterData.
          thenF (load_bytes (drop 4 raw) (SIZE_OF_CALIB_PARAM_BYTES + SIZE_OF_CALIB_HEADER_BYTES)
                   (unat ((of_nat (sizeof_IVCAMTesterData L) :: size_t)
                          - of_nat SIZE_OF_CALIB_HEADER_BYTES))) (\<lambda>tester.
          thenF (store_bytes TesterData SIZE_OF_CALIB_HEADER_BYTES tester) (\<lambda>TesterData.
            Inr \<lparr>cs_calprms = calprms, cs_TesterData = TesterData,
                 cs_calls = [buildParameters_struct member] @ [InitializeThermalData TesterData]\<rparr>))))))))"
    unfolding ProjectionCalibrate_def Let_def
    by (simp only: ver thenF_Inr IVCAM_MIN_SUPPORTED_VERSION_def dispatch if_True if_False n k_def)
  also have "\<dots> = Inr \<lparr>cs_calprms = member, cs_TesterData = hdr @ tester,
                 cs_calls = [buildParameters_struct member] @ [InitializeThermalData (hdr @ tester)]\<rparr>"
    by (simp only: s1 s2 s3 s4 s5 s6 s7 s8 thenF_Inr)
  finally show ?thesis
    by (simp only: Let_def k_def src_def CD_def member_def hdr_def tester_def append_Cons append_Nil)
qed


theorem versioned_layout_decoded_witness:
  "ProjectionCalibrate example_layout [7, 7, 7, 7, 7, 7, 7, 7] versioned_blob 12 [9, 9, 9, 9, 9, 9, 9, 9] =
     Inr \<lparr>cs_calprms = [20, 21, 22, 23, 0, 0, 0, 0],
          cs_TesterData = [0x14, 0x0A, 1, 4, 50, 51, 52, 53],
          cs_calls = [buildParameters_struct [20, 21, 22, 23, 0, 0, 0, 0],
                      InitializeThermalData [0x14, 0x0A, 1, 4, 50, 51, 52, 53]]\<rparr>"
  using versioned_layout_decoded [of versioned_blob 12 example_layout "[9, 9, 9, 9, 9, 9, 9, 9]"
      "[7, 7, 7, 7, 7, 7, 7, 7]"]
  by (simp add: versioned_blob_def example_layout_def SIZE_OF_CALIB_PARAM_BYTES_def
      SIZE_OF_CALIB_HEADER_BYTES_def replicate_four Let_def)

section \<open>Command Framer: the envelope\<close>

lemma length_le16: "length (le16 w) = 2"
  by (simp add: le16_def)

lemma length_le32: "length (le32 w) = 4"
  by (simp add: le32_def)

lemma load_le16_le16: "load_le16 (le16 w @ rest) = w"
proof -
  have a: "unat (ucast w :: byte) = unat w mod 256"
    by (simp add: unsigned_ucast_eq take_bit_eq_mod)
  have "unat (drop_bit 8 w) = unat w div 256"
    by (simp add: unat_drop_bit_eq) (simp add: drop_bit_eq_div)
  moreover have "unat w < 65536"
    using unsigned_less [of w, where 'a = nat] by simp
  ultimately have b: "unat (ucast (drop_bit 8 w) :: byte) = unat w div 256"
    by (simp add: unsigned_ucast_eq take_bit_eq_mod)
  have "load_le (take 2 (le16 w @ rest)) = unat w"
    using a b by (simp add: le16_def)
  then show ?thesis
    by (simp add: load_le16_def)
qed


lemma Prepare_too_small:
  assumes "requestSize < 24"
  shows "PrepareUSBCommand request requestSize opc p1 p2 p3 p4 data dataLength =
           Inr \<lparr>frame_request = request, frame_requestSize = requestSize, frame_return = 0\<rparr>"
  using assms by (simp add: PrepareUSBCommand_def IVCAM_MONITOR_HEADER_SIZE_def)

lemma Prepare_header:
  assumes "24 \<le> length request"
  shows "thenF (store_bytes request 2 (le16 IVCAM_MONITOR_MAGIC_NUMBER)) (\<lambda>r1.
         thenF (store_bytes r1 4 (le32 opc)) (\<lambda>r2.
         thenF (store_bytes r2 8 (le32 p1)) (\<lambda>r3.
         thenF (store_bytes r3 12 (le32 p2)) (\<lambda>r4.
         thenF (store_bytes r4 16 (le32 p3)) (\<lambda>r5.
         thenF (store_bytes r5 20 (le32 p4)) f)))))
         = f (take 2 request @ le16 IVCAM_MONITOR_MAGIC_NUMBER @ le32 opc @ le32 p1 @ le32 p2
                @ le32 p3 @ le32 p4 @ drop 24 request)"
proof -
  let ?m = "le16 IVCAM_MONITOR_MAGIC_NUMBER"
  have s1: "store_bytes request 2 ?m = Inr (take 2 request @ ?m @ drop 4 request)"
    using assms by (simp add: store_bytes_ok length_le16)
  have s2: "store_bytes (take 2 request @ ?m @ drop 4 request) 4 (le32 opc)
              = Inr (take 2 request @ ?m @ le32 opc @ drop 8 request)"
    using assms by (simp add: store_bytes_ok length_le16 length_le32)
  have s3: "store_bytes (take 2 request @ ?m @ le32 opc @ drop 8 request) 8 (le32 p1)
              = Inr (take 2 request @ ?m @ le32 opc @ le32 p1 @ drop 12 request)"
    using assms by (simp add: store_bytes_ok length_le16 length_le32)
  have s4: "store_bytes (take 2 request @ ?m @ le32 opc @ le32 p1 @ drop 12 request) 12 (le32 p2)
              = Inr (take 2 request @ ?m @ le32 opc @ le32 p1 @ le32 p2 @ drop 16 request)"
    using assms by (simp add: store_bytes_ok length_le16 length_le32)
  have s5: "store_bytes (take 2 request @ ?m @ le32 opc @ le32 p1 @ le32 p2 @ drop 16 request)
              16 (le32 p3)
              = Inr (take 2 request @ ?m @ le32 opc @ le32 p1 @ le32 p2 @ le32 p3
                     @ drop 20 request)"
    using assms by (simp add: store_bytes_ok length_le16 length_le32)
  have s6: "store_bytes (take 2 request @ ?m @ le32 opc @ le32 p1 @ le32 p2 @ le32 p3
                         @ drop 20 request) 20 (le32 p4)
              = Inr (take 2 request @ ?m @ le32 opc @ le32 p1 @ le32 p2 @ le32 p3 @ le32 p4
                     @ drop 24 request)"
    using assms by (simp add: store_bytes_ok length_le16 length_le32)
  show ?thesis
    by (simp only: s1 s2 s3 s4 s5 s6 thenF_Inr)
qed


lemma Prepare_ok:
  assumes "\<not> requestSize < 24" and "24 + unat dataLength \<le> length request"
    and "unat dataLength \<le> length data"
  shows "PrepareUSBCommand request requestSize opc p1 p2 p3 p4 data dataLength =
           Inr \<lparr>frame_request =
                  le16 (ucast ((scast (ucast (24 + dataLength) :: cint) :: size_t) - 4))
                  @ le16 IVCAM_MONITOR_MAGIC_NUMBER @ le32 opc @ le32 p1 @ le32 p2 @ le32 p3
                  @ le32 p4 @ take (unat dataLength) data @ drop (24 + unat dataLength) request,
                frame_requestSize = scast (ucast (24 + dataLength) :: cint),
                frame_return = ucast (24 + dataLength)\<rparr>"
proof -
  let ?H = "take 2 request @ le16 IVCAM_MONITOR_MAGIC_NUMBER @ le32 opc @ le32 p1 @ le32 p2
              @ le32 p3 @ le32 p4 @ drop 24 request"
  let ?idx = "ucast (24 + dataLength) :: cint"
  have len: "24 \<le> length request"
    using assms(2) by linarith
  have unfold: "PrepareUSBCommand request requestSize opc p1 p2 p3 p4 data dataLength =
      thenF (if dataLength \<noteq> 0
             then thenF (load_bytes data 0 (unat dataLength)) (\<lambda>payload.
                  thenF (store_bytes ?H 24 payload) (\<lambda>r7.
                    Inr (r7, (ucast ((scast (24 :: cint) :: size_t) + dataLength) :: cint))))
             else Inr (?H, 24)) (\<lambda>(r7, index).
      thenF (store_bytes r7 0 (le16 (ucast ((scast index :: size_t) - 4)))) (\<lambda>r8.
        Inr \<lparr>frame_request = r8, frame_requestSize = scast index, frame_return = index\<rparr>))"
    using assms(1) unfolding PrepareUSBCommand_def
    by (simp only: IVCAM_MONITOR_HEADER_SIZE_def Prepare_header [OF len]) simp
  show ?thesis
  proof (cases "dataLength = 0")
    case True
    show ?thesis
      unfolding unfold using True len
      by (simp add: thenF_Inr store_bytes_ok length_le16 length_le32)
  next
    case False
    have p: "load_bytes data 0 (unat dataLength) = Inr (take (unat dataLength) data)"
      using assms(3) by (simp add: load_bytes_ok)
    have r7: "store_bytes ?H 24 (take (unat dataLength) data)
                = Inr (take 2 request @ le16 IVCAM_MONITOR_MAGIC_NUMBER @ le32 opc @ le32 p1
                       @ le32 p2 @ le32 p3 @ le32 p4 @ take (unat dataLength) data
                       @ drop (24 + unat dataLength) request)"
      using assms(2,3) by (simp add: store_bytes_ok length_le16 length_le32 min_def ac_simps)
    show ?thesis
      unfolding unfold using False assms(2)
      by (simp add: p r7 thenF_Inr store_bytes_ok length_le16 length_le32)
  qed
qed


lemma framer_index:
  fixes dataLength :: size_t
  assumes "unat dataLength \<le> 65515"
  shows "sint (ucast (24 + dataLength) :: cint) = 24 + uint dataLength"
    and "unat (scast (ucast (24 + dataLength) :: cint) :: size_t) = 24 + unat dataLength"
    and "unat (ucast ((scast (ucast (24 + dataLength) :: cint) :: size_t) - 4) :: uint16)
           = 24 + unat dataLength - 4"
proof -
  have "unat (24 :: size_t) + unat dataLength < 2 ^ LENGTH(64)"
    using assms by simp
  then have "unat (24 + dataLength) = unat (24 :: size_t) + unat dataLength"
    by (simp only: unat_add_lem)
  then have total: "unat (24 + dataLength) = 24 + unat dataLength"
    by simp
  have small: "uint dataLength \<le> 65515"
    using assms uint_nat [of dataLength] by linarith
  have u: "uint (24 + dataLength) = 24 + uint dataLength"
    using total uint_nat [of "24 + dataLength"] uint_nat [of dataLength] by linarith
  then have "uint (24 + dataLength) < 2 ^ 31"
    using small by simp
  then have "sint (ucast (24 + dataLength) :: cint) = uint (24 + dataLength)"
    by (rule sint_ucast_size_t)
  then show s: "sint (ucast (24 + dataLength) :: cint) = 24 + uint dataLength"
    using u by simp
  then have "0 \<le> sint (ucast (24 + dataLength) :: cint)"
    by simp
  then have "unat (scast (ucast (24 + dataLength) :: cint) :: size_t)
               = nat (sint (ucast (24 + dataLength) :: cint))"
    by (rule unat_scast_cint)
  then show sz: "unat (scast (ucast (24 + dataLength) :: cint) :: size_t) = 24 + unat dataLength"
    using s uint_nat [of dataLength] by linarith
  then have "unat ((scast (ucast (24 + dataLength) :: cint) :: size_t) - 4)
               = 24 + unat dataLength - 4"
    using unat_minus_four [of "scast (ucast (24 + dataLength) :: cint)"] by simp
  moreover have "unat (ucast ((scast (ucast (24 + dataLength) :: cint) :: size_t) - 4) :: uint16)
               = unat ((scast (ucast (24 + dataLength) :: cint) :: size_t) - 4) mod 65536"
    by (simp add: unsigned_ucast_eq take_bit_eq_mod)
  ultimately show "unat (ucast ((scast (ucast (24 + dataLength) :: cint) :: size_t) - 4) :: uint16)
           = 24 + unat dataLength - 4"
    using assms by simp
qed


text \<open>
  Claim C7. With a capacity below the header size (24) the framer returns 0 and leaves
  the buffer and \<^verbatim>\<open>requestSize\<close> alone. With a capacity of at least 24 and a request that
  the buffer and the payload object hold, the framer writes \<open>total = 24 + dataLength\<close>
  bytes: the 2-byte field at offset 0 holds \<open>total - 4\<close>, the return value and
  \<^verbatim>\<open>requestSize\<close> are \<open>total\<close>, and \<open>total\<close> is at least 24. The requests covered are those
  whose \<open>total - 4\<close> fits the 2-byte field, which includes every request envelope of the
  protocol (at most \<^verbatim>\<open>IVCAM_MONITOR_MAX_BUFFER_SIZE\<close>, 1024 bytes).
\<close>

theorem framer_length_field:
  "(unat requestSize < IVCAM_MONITOR_HEADER_SIZE \<longrightarrow>
      PrepareUSBCommand request requestSize opc p1 p2 p3 p4 data dataLength =
        Inr \<lparr>frame_request = request, frame_requestSize = requestSize, frame_return = 0\<rparr>)
   \<and> (IVCAM_MONITOR_HEADER_SIZE \<le> unat requestSize
        \<and> IVCAM_MONITOR_HEADER_SIZE + unat dataLength \<le> length request
        \<and> unat dataLength \<le> length data
        \<and> IVCAM_MONITOR_HEADER_SIZE + unat dataLength - 4 < 2 ^ 16 \<longrightarrow>
      (\<exists>fr. PrepareUSBCommand request requestSize opc p1 p2 p3 p4 data dataLength = Inr fr
         \<and> frame_request fr =
               le16 (of_nat (IVCAM_MONITOR_HEADER_SIZE + unat dataLength - 4))
               @ le16 IVCAM_MONITOR_MAGIC_NUMBER @ le32 opc @ le32 p1 @ le32 p2 @ le32 p3
               @ le32 p4 @ take (unat dataLength) data
               @ drop (IVCAM_MONITOR_HEADER_SIZE + unat dataLength) request
         \<and> unat (load_le16 (frame_request fr)) = IVCAM_MONITOR_HEADER_SIZE + unat dataLength - 4
         \<and> sint (frame_return fr) = int (IVCAM_MONITOR_HEADER_SIZE + unat dataLength)
         \<and> unat (frame_requestSize fr) = IVCAM_MONITOR_HEADER_SIZE + unat dataLength
         \<and> int IVCAM_MONITOR_HEADER_SIZE \<le> sint (frame_return fr)))"
proof (intro conjI impI)
  assume "unat requestSize < IVCAM_MONITOR_HEADER_SIZE"
  then have "requestSize < 24"
    by (simp add: word_less_nat_alt IVCAM_MONITOR_HEADER_SIZE_def)
  then show "PrepareUSBCommand request requestSize opc p1 p2 p3 p4 data dataLength =
        Inr \<lparr>frame_request = request, frame_requestSize = requestSize, frame_return = 0\<rparr>"
    by (rule Prepare_too_small)
next
  let ?idx = "ucast (24 + dataLength) :: cint"
  let ?field = "ucast ((scast ?idx :: size_t) - 4) :: uint16"
  assume h: "IVCAM_MONITOR_HEADER_SIZE \<le> unat requestSize
        \<and> IVCAM_MONITOR_HEADER_SIZE + unat dataLength \<le> length request
        \<and> unat dataLength \<le> length data
        \<and> IVCAM_MONITOR_HEADER_SIZE + unat dataLength - 4 < 2 ^ 16"
  then have cap: "\<not> requestSize < 24"
    by (simp add: word_less_nat_alt IVCAM_MONITOR_HEADER_SIZE_def)
  from h have buf: "24 + unat dataLength \<le> length request" and pay: "unat dataLength \<le> length data"
    by (simp_all add: IVCAM_MONITOR_HEADER_SIZE_def)
  from h have small: "unat dataLength \<le> 65515"
    by (simp add: IVCAM_MONITOR_HEADER_SIZE_def)
  note idx = framer_index [OF small]
  have "?field = of_nat (unat ?field)"
    by simp
  then have field: "?field = of_nat (24 + unat dataLength - 4)"
    by (simp only: idx(3))
  have ret: "sint ?idx = int (24 + unat dataLength)"
    by (simp only: idx(1)) simp
  define fr where "fr = \<lparr>frame_request =
                  le16 (of_nat (24 + unat dataLength - 4))
                  @ le16 IVCAM_MONITOR_MAGIC_NUMBER @ le32 opc @ le32 p1 @ le32 p2 @ le32 p3
                  @ le32 p4 @ take (unat dataLength) data @ drop (24 + unat dataLength) request,
                frame_requestSize = scast ?idx, frame_return = ?idx\<rparr>"
  have "PrepareUSBCommand request requestSize opc p1 p2 p3 p4 data dataLength =
           Inr \<lparr>frame_request =
                  le16 ?field
                  @ le16 IVCAM_MONITOR_MAGIC_NUMBER @ le32 opc @ le32 p1 @ le32 p2 @ le32 p3
                  @ le32 p4 @ take (unat dataLength) data @ drop (24 + unat dataLength) request,
                frame_requestSize = scast ?idx, frame_return = ?idx\<rparr>"
    using cap buf pay by (rule Prepare_ok)
  then have run: "PrepareUSBCommand request requestSize opc p1 p2 p3 p4 data dataLength = Inr fr"
    by (simp only: field fr_def)
  have bytes: "frame_request fr =
               le16 (of_nat (IVCAM_MONITOR_HEADER_SIZE + unat dataLength - 4))
               @ le16 IVCAM_MONITOR_MAGIC_NUMBER @ le32 opc @ le32 p1 @ le32 p2 @ le32 p3
               @ le32 p4 @ take (unat dataLength) data
               @ drop (IVCAM_MONITOR_HEADER_SIZE + unat dataLength) request"
    by (simp add: fr_def IVCAM_MONITOR_HEADER_SIZE_def)
  have "load_le16 (frame_request fr) = of_nat (24 + unat dataLength - 4)"
    by (simp only: fr_def framed.simps load_le16_le16)
  moreover have "unat (of_nat (24 + unat dataLength - 4) :: uint16) = 24 + unat dataLength - 4"
    using small by (simp only: unat_of_nat) simp
  ultimately have lenfield:
    "unat (load_le16 (frame_request fr)) = IVCAM_MONITOR_HEADER_SIZE + unat dataLength - 4"
    by (simp only: IVCAM_MONITOR_HEADER_SIZE_def)
  have r: "sint (frame_return fr) = int (IVCAM_MONITOR_HEADER_SIZE + unat dataLength)"
    using ret by (simp add: fr_def IVCAM_MONITOR_HEADER_SIZE_def)
  have sz: "unat (frame_requestSize fr) = IVCAM_MONITOR_HEADER_SIZE + unat dataLength"
    using idx(2) by (simp add: fr_def IVCAM_MONITOR_HEADER_SIZE_def)
  have ge: "int IVCAM_MONITOR_HEADER_SIZE \<le> sint (frame_return fr)"
    by (simp only: r of_nat_le_iff le_add1)
  from run bytes lenfield r sz ge
  show "\<exists>fr. PrepareUSBCommand request requestSize opc p1 p2 p3 p4 data dataLength = Inr fr
         \<and> frame_request fr =
               le16 (of_nat (IVCAM_MONITOR_HEADER_SIZE + unat dataLength - 4))
               @ le16 IVCAM_MONITOR_MAGIC_NUMBER @ le32 opc @ le32 p1 @ le32 p2 @ le32 p3
               @ le32 p4 @ take (unat dataLength) data
               @ drop (IVCAM_MONITOR_HEADER_SIZE + unat dataLength) request
         \<and> unat (load_le16 (frame_request fr)) = IVCAM_MONITOR_HEADER_SIZE + unat dataLength - 4
         \<and> sint (frame_return fr) = int (IVCAM_MONITOR_HEADER_SIZE + unat dataLength)
         \<and> unat (frame_requestSize fr) = IVCAM_MONITOR_HEADER_SIZE + unat dataLength
         \<and> int IVCAM_MONITOR_HEADER_SIZE \<le> sint (frame_return fr)"
    by blast
qed

theorem framer_length_field_witness:
  "PrepareUSBCommand (replicate 23 7) 23 GetCalibrationTable 1 2 3 4 [9, 9, 9] 3 =
     Inr \<lparr>frame_request = replicate 23 7, frame_requestSize = 23, frame_return = 0\<rparr>
   \<and> map_sum id (\<lambda>fr. (frame_request fr, unat (load_le16 (frame_request fr)),
                         sint (frame_return fr), unat (frame_requestSize fr)))
        (PrepareUSBCommand (replicate 30 7) 30 GetCalibrationTable 1 2 3 4 [9, 9, 9] 3)
       = Inr ([23, 0, 0xAB, 0xCD, 0x3D, 0, 0, 0, 1, 0, 0, 0, 2, 0, 0, 0, 3, 0, 0, 0, 4, 0, 0, 0,
               9, 9, 9] @ replicate 3 7, 27 - 4, 27, 27)"
  using framer_length_field [of 23 "replicate 23 7" GetCalibrationTable 1 2 3 4 "[9, 9, 9]" 3]
    framer_length_field [of 30 "replicate 30 7" GetCalibrationTable 1 2 3 4 "[9, 9, 9]" 3]
  by (auto simp add: IVCAM_MONITOR_HEADER_SIZE_def IVCAM_MONITOR_MAGIC_NUMBER_def
      GetCalibrationTable_def le16_def le32_def)

end
